theory Spec2Isabelle
  imports Main
begin

section \<open>Wire values and exceptions\<close>

text \<open>
  A payload is the plain value \<open>to_dict\<close> returns: integers, strings, booleans, lists and
  dicts. A dict is kept as the list of its items in insertion order; every key below is
  assigned once, so a lookup is \<open>map_of\<close>.
\<close>

datatype json =
    JBool bool
  | JInt int
  | JStr string
  | JArr "json list"
  | JObj "(string \<times> json) list"

text \<open>
  The exceptions a statement or a call can end in. \<open>ValueError\<close> and \<open>TypeError\<close> carry
  the message the source raises them with, \<open>NameError\<close> the name that is not bound,
  \<open>AttributeError\<close> the attribute that is missing.
\<close>

datatype error =
    ValueError string
  | TypeError string
  | NameError string
  | AttributeError string

section \<open>Objects\<close>

text \<open>
  Python checks no argument type, so a constructor can be handed any object. An object is
  given by its class and the attributes the methods of the class read: one constructor per
  class of \<open>discord/components_v2.py\<close>, and \<open>Other\<close> for an object of any class that is
  no component (a string, a dict, ...). Whether a caller can get hold of an object of a
  class is decided by the loading of the module, which is modelled below.

  Modelled from the spec: \<open>ActionRow\<close> and \<open>Button\<close> are classes of
  \<open>discord/components.py\<close>, which is not among the sources; the spec names them as the
  collaborator's node types 1 and 2. An object of either carries the payload its own
  \<open>to_dict\<close> returns.
\<close>

datatype obj =
    ActionRow json
  | Button json
  | Section (components: "obj list") (accessory: "obj option") (id': "int option")
  | TextDisplay (content: string) (id': "int option")
  | Container (components: "obj list") (accent_color: "int option") (spoiler: bool)
      (id': "int option")
  | Thumbnail (media_url: string) (description: "string option") (spoiler: bool)
      (id': "int option")
  | MediaGalleryItem (media_url: string) (description: "string option") (spoiler: bool)
  | MediaGallery (items: "obj list") (id': "int option")
  | File (filename: string) (spoiler: bool) (id': "int option")
  | Separator (divider: bool) (spacing: int) (id': "int option")
  | Other

datatype cls =
    ActionRow_cls
  | Button_cls
  | Section_cls
  | TextDisplay_cls
  | Container_cls
  | Thumbnail_cls
  | MediaGalleryItem_cls
  | MediaGallery_cls
  | File_cls
  | Separator_cls
  | Other_cls

fun class_of :: "obj \<Rightarrow> cls" where
  "class_of (ActionRow p) = ActionRow_cls"
| "class_of (Button p) = Button_cls"
| "class_of (Section cs acc i) = Section_cls"
| "class_of (TextDisplay c i) = TextDisplay_cls"
| "class_of (Container cs ac sp i) = Container_cls"
| "class_of (Thumbnail u d sp i) = Thumbnail_cls"
| "class_of (MediaGalleryItem u d sp) = MediaGalleryItem_cls"
| "class_of (MediaGallery its i) = MediaGallery_cls"
| "class_of (File f sp i) = File_cls"
| "class_of (Separator dv s i) = Separator_cls"
| "class_of Other = Other_cls"

text \<open>\<open>isinstance(x, (A, B, ...))\<close>: no class of the module subclasses another.\<close>

definition isinstance :: "obj \<Rightarrow> cls list \<Rightarrow> bool" where
  "isinstance x classes = (class_of x \<in> set classes)"

section \<open>Loading the module\<close>

text \<open>
  A namespace is the list of the names that are bound. The body of
  \<open>discord/components_v2.py\<close> is a sequence of statements, run in order when the module is
  imported: an import binds the names it lists, an assignment binds its target, an \<open>if\<close>
  reads the names of its test, and a class statement reads its decorators, then its bases,
  then the names its body reads while it runs, and binds the name of the class at the end.
  Reading a name that is not bound raises \<open>NameError\<close> and ends the import. Annotations
  are never evaluated (\<open>from __future__ import annotations\<close>).
\<close>

type_synonym namespace = "string list"

datatype stmt =
    Import "string list"
  | Assign string
  | Reads "string list"
  | ClassDef string "string list" "string list" "string list"

text \<open>The names of \<open>builtins\<close> that the module reads.\<close>

definition builtins :: namespace where
  "builtins = [''property'', ''isinstance'', ''all'', ''len'', ''ValueError'', ''TypeError'']"

text \<open>
  The statements of the module, lines 25 to 555. The \<open>if TYPE_CHECKING:\<close> of line 32
  reads \<open>TYPE_CHECKING\<close>, which is false when the program runs, so its two imports bind
  nothing. Each component class has the base \<open>Component\<close> and a \<open>property\<close> in its body;
  \<open>MediaGalleryItem\<close> (line 322) has the decorator \<open>dataclass\<close> and no base; the body of
  \<open>Separator\<close> reads \<open>SeparatorSpacing\<close> for the default of \<open>spacing\<close>. The imports
  are those of lines 25 to 30; none of them lists \<open>dataclass\<close> or \<open>ActionRow\<close>.
\<close>

definition module_body :: "stmt list" where
  "module_body =
     [Import [''annotations''],
      Import [''ClassVar'', ''List'', ''Literal'', ''Optional'', ''TYPE_CHECKING'', ''Tuple'',
              ''Union'', ''Dict'', ''Any''],
      Import [''Component'', ''Button''],
      Import [''ComponentType''],
      Import [''MISSING''],
      Reads [''TYPE_CHECKING''],
      Assign ''__all__'',
      ClassDef ''Section'' [] [''Component''] [''property''],
      ClassDef ''TextDisplay'' [] [''Component''] [''property''],
      ClassDef ''Container'' [] [''Component''] [''property''],
      ClassDef ''Thumbnail'' [] [''Component''] [''property''],
      ClassDef ''MediaGalleryItem'' [''dataclass''] [] [],
      ClassDef ''MediaGallery'' [] [''Component''] [''property''],
      ClassDef ''File'' [] [''Component''] [''property''],
      ClassDef ''SeparatorSpacing'' [] [] [],
      ClassDef ''Separator'' [] [''Component''] [''SeparatorSpacing'', ''property'']]"

fun exec_stmt :: "namespace \<Rightarrow> stmt \<Rightarrow> error + namespace" where
  "exec_stmt ns (Import names) = Inr (names @ ns)"
| "exec_stmt ns (Assign name) = Inr (name # ns)"
| "exec_stmt ns (Reads names) =
     (case find (\<lambda>name. name \<notin> set ns) names of
        Some name \<Rightarrow> Inl (NameError name)
      | None \<Rightarrow> Inr ns)"
| "exec_stmt ns (ClassDef name decorators bases body) =
     (case find (\<lambda>name. name \<notin> set ns) (decorators @ bases @ body) of
        Some unbound \<Rightarrow> Inl (NameError unbound)
      | None \<Rightarrow> Inr (name # ns))"

fun exec_body :: "namespace \<Rightarrow> stmt list \<Rightarrow> error + namespace" where
  "exec_body ns [] = Inr ns"
| "exec_body ns (s # ss) =
     (case exec_stmt ns s of
        Inl e \<Rightarrow> Inl e
      | Inr ns' \<Rightarrow> exec_body ns' ss)"

text \<open>\<open>import discord.components_v2\<close>: the body runs on top of the builtins.\<close>

definition import_module :: "error + namespace" where
  "import_module = exec_body builtins module_body"

text \<open>
  What a caller can do with the module: import it, and then run a program \<open>f\<close> on the
  names it binds. An import that raises leaves the caller with the exception and no name.
\<close>

definition from_import :: "(namespace \<Rightarrow> error + 'a) \<Rightarrow> error + 'a" where
  "from_import f =
     (case import_module of
        Inl e \<Rightarrow> Inl e
      | Inr ns \<Rightarrow> f ns)"

text \<open>One call after another: the first that raises ends the program.\<close>

definition and_then :: "error + 'a \<Rightarrow> ('a \<Rightarrow> error + 'b) \<Rightarrow> error + 'b" where
  "and_then r f = (case r of Inl e \<Rightarrow> Inl e | Inr x \<Rightarrow> f x)"

text \<open>
  The names bound when the body has run its first eleven statements, up to the class
  statement of \<open>Thumbnail\<close>; the twelfth is the class statement of line 322.
\<close>

definition globals_at_line_322 :: namespace where
  "globals_at_line_322 =
     [''Thumbnail'', ''Container'', ''TextDisplay'', ''Section'', ''__all__'', ''MISSING'',
      ''ComponentType'', ''Component'', ''Button'', ''ClassVar'', ''List'', ''Literal'',
      ''Optional'', ''TYPE_CHECKING'', ''Tuple'', ''Union'', ''Dict'', ''Any'', ''annotations'']
     @ builtins"

section \<open>Global names inside a function body\<close>

text \<open>
  The class a name denotes where it is bound. No name is bound twice, so the namespace only
  has to say which names are bound. \<open>ActionRow\<close> is what
  \<open>from .components import ActionRow\<close> would bind.
\<close>

definition classes :: "(string \<times> cls) list" where
  "classes =
     [(''ActionRow'', ActionRow_cls),
      (''Button'', Button_cls),
      (''Section'', Section_cls),
      (''TextDisplay'', TextDisplay_cls),
      (''Container'', Container_cls),
      (''Thumbnail'', Thumbnail_cls),
      (''MediaGalleryItem'', MediaGalleryItem_cls),
      (''MediaGallery'', MediaGallery_cls),
      (''File'', File_cls),
      (''Separator'', Separator_cls)]"

text \<open>
  Reading a global name inside a function body raises \<open>NameError\<close> when the name is not
  bound. A bound name that is no class makes \<open>isinstance\<close> raise \<open>TypeError\<close>.
\<close>

definition load_global :: "namespace \<Rightarrow> string \<Rightarrow> error + cls" where
  "load_global ns name =
     (if name \<notin> set ns then Inl (NameError name)
      else
        (case map_of classes name of
           None \<Rightarrow> Inl (TypeError ''isinstance() arg 2 must be a type, a tuple of types, or a union'')
         | Some c \<Rightarrow> Inr c))"

text \<open>A tuple of names, evaluated left to right; the first unbound name raises.\<close>

fun load_globals :: "namespace \<Rightarrow> string list \<Rightarrow> error + cls list" where
  "load_globals ns [] = Inr []"
| "load_globals ns (name # names) =
     (case load_global ns name of
        Inl e \<Rightarrow> Inl e
      | Inr c \<Rightarrow>
          (case load_globals ns names of
             Inl e \<Rightarrow> Inl e
           | Inr cs \<Rightarrow> Inr (c # cs)))"

section \<open>The type tags\<close>

text \<open>
  Modelled from the spec: the enum \<open>ComponentType\<close> is declared in \<open>discord/enums.py\<close>,
  which is not among the sources. Its values are the tags of the spec's wire shapes, which
  are also the \<open>Literal\<close> tags of the TypedDicts in \<open>discord/types/components.py\<close>.
  The members carry the prefix \<open>ct_\<close>: \<open>section\<close> is a keyword here.
\<close>

datatype ComponentType =
    ct_section
  | ct_text_display
  | ct_thumbnail
  | ct_media_gallery
  | ct_file
  | ct_separator
  | ct_container

fun ComponentType_value :: "ComponentType \<Rightarrow> int" where
  "ComponentType_value ct_section = 9"
| "ComponentType_value ct_text_display = 10"
| "ComponentType_value ct_thumbnail = 11"
| "ComponentType_value ct_media_gallery = 12"
| "ComponentType_value ct_file = 13"
| "ComponentType_value ct_separator = 14"
| "ComponentType_value ct_container = 17"

section \<open>Constructors\<close>

text \<open>
  The body of each \<open>__init__\<close>, run in a namespace \<open>ns\<close>. A body that returns has stored
  its arguments as they are.
\<close>

definition SeparatorSpacing_SMALL :: int where
  "SeparatorSpacing_SMALL = 1"

definition SeparatorSpacing_LARGE :: int where
  "SeparatorSpacing_LARGE = 2"

text \<open>\<open>TextDisplay.__init__\<close>, \<open>Thumbnail.__init__\<close> and \<open>File.__init__\<close> assign their
  arguments and read no global name. \<open>MediaGalleryItem\<close> declares no \<open>__init__\<close>.\<close>

definition TextDisplay_init :: "string \<Rightarrow> int option \<Rightarrow> error + obj" where
  "TextDisplay_init content_arg id_arg = Inr (TextDisplay content_arg id_arg)"

definition Thumbnail_init ::
  "string \<Rightarrow> string option \<Rightarrow> bool \<Rightarrow> int option \<Rightarrow> error + obj" where
  "Thumbnail_init media_url_arg description_arg spoiler_arg id_arg =
     Inr (Thumbnail media_url_arg description_arg spoiler_arg id_arg)"

definition File_init :: "string \<Rightarrow> bool \<Rightarrow> int option \<Rightarrow> error + obj" where
  "File_init filename_arg spoiler_arg id_arg = Inr (File filename_arg spoiler_arg id_arg)"

text \<open>\<open>Section.__init__\<close>: the two count checks, then the check of every component, then
  the check of the accessory, which reads \<open>Button\<close> and \<open>Thumbnail\<close> only when an
  accessory is given.\<close>

definition Section_init ::
  "namespace \<Rightarrow> obj list \<Rightarrow> obj option \<Rightarrow> int option \<Rightarrow> error + obj" where
  "Section_init ns cs acc i =
     (if cs = [] then
        Inl (ValueError ''Section must contain at least one text component'')
      else if length cs > 3 then
        Inl (ValueError ''Section can only contain up to 3 text components'')
      else
        (case load_globals ns [''TextDisplay''] of
           Inl e \<Rightarrow> Inl e
         | Inr text_types \<Rightarrow>
             if \<not> list_all (\<lambda>comp. isinstance comp text_types) cs then
               Inl (TypeError ''All components must be TextDisplay instances'')
             else
               (case acc of
                  None \<Rightarrow> Inr (Section cs acc i)
                | Some a \<Rightarrow>
                    (case load_globals ns [''Button'', ''Thumbnail''] of
                       Inl e \<Rightarrow> Inl e
                     | Inr accessory_types \<Rightarrow>
                         if \<not> isinstance a accessory_types then
                           Inl (TypeError
                             ''Accessory must be either a Button or Thumbnail instance'')
                         else Inr (Section cs acc i)))))"

text \<open>\<open>Container.__init__\<close>: the emptiness check, then the tuple \<open>valid_types\<close> is built
  from six global names, then the check of every component, then the range check.\<close>

definition Container_init ::
  "namespace \<Rightarrow> obj list \<Rightarrow> int option \<Rightarrow> bool \<Rightarrow> int option \<Rightarrow> error + obj" where
  "Container_init ns cs ac sp i =
     (if cs = [] then
        Inl (ValueError ''Container must contain at least one component'')
      else
        (case load_globals ns [''ActionRow'', ''TextDisplay'', ''Section'', ''MediaGallery'',
                               ''Separator'', ''File''] of
           Inl e \<Rightarrow> Inl e
         | Inr valid_types \<Rightarrow>
             if \<not> list_all (\<lambda>comp. isinstance comp valid_types) cs then
               Inl (TypeError
                 ''All components must be one of: ActionRow, TextDisplay, Section, MediaGallery, Separator, or File'')
             else
               (case ac of
                  None \<Rightarrow> Inr (Container cs ac sp i)
                | Some colour \<Rightarrow>
                    if \<not> (0 \<le> colour \<and> colour \<le> 0xFFFFFF) then
                      Inl (ValueError ''accent_color must be between 0x000000 and 0xFFFFFF'')
                    else Inr (Container cs ac sp i))))"

text \<open>\<open>MediaGallery.__init__\<close>: the two count checks, then the check of every item.\<close>

definition MediaGallery_init :: "namespace \<Rightarrow> obj list \<Rightarrow> int option \<Rightarrow> error + obj" where
  "MediaGallery_init ns its i =
     (if its = [] then
        Inl (ValueError ''MediaGallery must contain at least one item'')
      else if length its > 10 then
        Inl (ValueError ''MediaGallery can only contain up to 10 items'')
      else
        (case load_globals ns [''MediaGalleryItem''] of
           Inl e \<Rightarrow> Inl e
         | Inr item_types \<Rightarrow>
             if \<not> list_all (\<lambda>item. isinstance item item_types) its then
               Inl (TypeError ''All items must be MediaGalleryItem instances'')
             else Inr (MediaGallery its i)))"

text \<open>\<open>Separator.__init__\<close>: \<open>spacing\<close> must be one of the two constants, which are
  read from the global \<open>SeparatorSpacing\<close>.\<close>

definition Separator_init :: "namespace \<Rightarrow> bool \<Rightarrow> int \<Rightarrow> int option \<Rightarrow> error + obj" where
  "Separator_init ns dv s i =
     (if ''SeparatorSpacing'' \<notin> set ns then Inl (NameError ''SeparatorSpacing'')
      else if s \<notin> set [SeparatorSpacing_SMALL, SeparatorSpacing_LARGE] then
        Inl (ValueError
          ''spacing must be either SeparatorSpacing.SMALL or SeparatorSpacing.LARGE'')
      else Inr (Separator dv s i))"

section \<open>Serialization\<close>

text \<open>A list comprehension over \<open>to_dict\<close> calls: the first call that raises ends it.\<close>

fun collect :: "(error + json) list \<Rightarrow> error + json list" where
  "collect [] = Inr []"
| "collect (r # rs) =
     (case r of
        Inl e \<Rightarrow> Inl e
      | Inr j \<Rightarrow>
          (case collect rs of
             Inl e \<Rightarrow> Inl e
           | Inr js \<Rightarrow> Inr (j # js)))"

text \<open>The optional entries, in the order the source assigns them.\<close>

definition opt_id :: "int option \<Rightarrow> (string \<times> json) list" where
  "opt_id i = (case i of None \<Rightarrow> [] | Some v \<Rightarrow> [(''id'', JInt v)])"

definition opt_spoiler :: "bool \<Rightarrow> (string \<times> json) list" where
  "opt_spoiler sp = (if sp then [(''spoiler'', JBool True)] else [])"

definition opt_description :: "string option \<Rightarrow> (string \<times> json) list" where
  "opt_description d = (case d of None \<Rightarrow> [] | Some v \<Rightarrow> [(''description'', JStr v)])"

text \<open>
  \<open>to_dict\<close> of every class, on an object of the class. An object of a class that is no
  component has no such method. The globals a \<open>to_dict\<close> body reads are \<open>ComponentType\<close>
  and, in \<open>Separator.to_dict\<close>, \<open>SeparatorSpacing\<close>; both are bound by statements that
  come before the class statement of the class, so they are bound wherever an object of
  the class exists.
\<close>

fun to_dict :: "obj \<Rightarrow> error + json" where
  "to_dict (ActionRow p) = Inr p"
| "to_dict (Button p) = Inr p"
| "to_dict (Section cs acc i) =
     (case collect (map to_dict cs) of
        Inl e \<Rightarrow> Inl e
      | Inr js \<Rightarrow>
          (case acc of
             None \<Rightarrow>
               Inr (JObj ([(''type'', JInt (ComponentType_value ct_section)),
                           (''components'', JArr js)] @ opt_id i))
           | Some a \<Rightarrow>
               (case to_dict a of
                  Inl e \<Rightarrow> Inl e
                | Inr ja \<Rightarrow>
                    Inr (JObj ([(''type'', JInt (ComponentType_value ct_section)),
                                (''components'', JArr js),
                                (''accessory'', ja)] @ opt_id i)))))"
| "to_dict (TextDisplay c i) =
     Inr (JObj ([(''type'', JInt (ComponentType_value ct_text_display)),
                 (''content'', JStr c)] @ opt_id i))"
| "to_dict (Container cs ac sp i) =
     (case collect (map to_dict cs) of
        Inl e \<Rightarrow> Inl e
      | Inr js \<Rightarrow>
          Inr (JObj ([(''type'', JInt (ComponentType_value ct_container)),
                      (''components'', JArr js)]
                     @ (case ac of None \<Rightarrow> [] | Some v \<Rightarrow> [(''accent_color'', JInt v)])
                     @ opt_spoiler sp @ opt_id i)))"
| "to_dict (Thumbnail u d sp i) =
     Inr (JObj ([(''type'', JInt (ComponentType_value ct_thumbnail)),
                 (''media'', JObj [(''url'', JStr u)])]
                @ opt_description d @ opt_spoiler sp @ opt_id i))"
| "to_dict (MediaGalleryItem u d sp) =
     Inr (JObj ([(''media'', JObj [(''url'', JStr u)])]
                @ opt_description d @ opt_spoiler sp))"
| "to_dict (MediaGallery its i) =
     (case collect (map to_dict its) of
        Inl e \<Rightarrow> Inl e
      | Inr js \<Rightarrow>
          Inr (JObj ([(''type'', JInt (ComponentType_value ct_media_gallery)),
                      (''items'', JArr js)] @ opt_id i)))"
| "to_dict (File f sp i) =
     Inr (JObj ([(''type'', JInt (ComponentType_value ct_file)),
                 (''file'', JObj [(''url'', JStr (''attachment://'' @ f))])]
                @ opt_spoiler sp @ opt_id i))"
| "to_dict (Separator dv s i) =
     Inr (JObj ([(''type'', JInt (ComponentType_value ct_separator))]
                @ (if \<not> dv then [(''divider'', JBool False)] else [])
                @ (if s \<noteq> SeparatorSpacing_SMALL then [(''spacing'', JInt s)] else [])
                @ opt_id i))"
| "to_dict Other = Inl (AttributeError ''to_dict'')"

text \<open>\<open>payload.get(key)\<close> on a returned dict; a payload that is no dict has no keys.\<close>

fun payload_get :: "json \<Rightarrow> string \<Rightarrow> json option" where
  "payload_get (JObj kvs) key = map_of kvs key"
| "payload_get (JBool b) key = None"
| "payload_get (JInt n) key = None"
| "payload_get (JStr s) key = None"
| "payload_get (JArr js) key = None"


section \<open>Objects a constructor returned\<close>

text \<open>
  What can exist in a namespace \<open>ns\<close>: a foreign object, a component of the
  collaborator's, and an object whose class is bound in \<open>ns\<close> and whose constructor
  returned it when called on such objects. The constructor of \<open>MediaGalleryItem\<close> is the
  one the decorator generates, so an item needs no more than its class to be bound.
\<close>

fun obtainable :: "namespace \<Rightarrow> obj \<Rightarrow> bool" where
  "obtainable ns (ActionRow p) = True"
| "obtainable ns (Button p) = True"
| "obtainable ns (Section cs acc i) =
     (''Section'' \<in> set ns \<and> list_all (obtainable ns) cs \<and>
      (case acc of None \<Rightarrow> True | Some a \<Rightarrow> obtainable ns a) \<and>
      Section_init ns cs acc i = Inr (Section cs acc i))"
| "obtainable ns (TextDisplay c i) =
     (''TextDisplay'' \<in> set ns \<and> TextDisplay_init c i = Inr (TextDisplay c i))"
| "obtainable ns (Container cs ac sp i) =
     (''Container'' \<in> set ns \<and> list_all (obtainable ns) cs \<and>
      Container_init ns cs ac sp i = Inr (Container cs ac sp i))"
| "obtainable ns (Thumbnail u d sp i) =
     (''Thumbnail'' \<in> set ns \<and> Thumbnail_init u d sp i = Inr (Thumbnail u d sp i))"
| "obtainable ns (MediaGalleryItem u d sp) = (''MediaGalleryItem'' \<in> set ns)"
| "obtainable ns (MediaGallery its i) =
     (''MediaGallery'' \<in> set ns \<and> list_all (obtainable ns) its \<and>
      MediaGallery_init ns its i = Inr (MediaGallery its i))"
| "obtainable ns (File f sp i) = (''File'' \<in> set ns \<and> File_init f sp i = Inr (File f sp i))"
| "obtainable ns (Separator dv s i) =
     (''Separator'' \<in> set ns \<and> Separator_init ns dv s i = Inr (Separator dv s i))"
| "obtainable ns Other = True"

section \<open>The payload types of \<open>discord/types/components.py\<close>\<close>












section \<open>What the import does\<close>

text \<open>
  The import raises at the class statement of line 322: \<open>dataclass\<close> is read and no
  statement has bound it. The statements before it have run; those after it never do.
  Whatever a caller goes on to do with the module, the caller gets this exception.
\<close>

lemma import_module_raises: "import_module = Inl (NameError ''dataclass'')"
  by (simp add: import_module_def module_body_def builtins_def)

lemma from_import_raises: "from_import f = Inl (NameError ''dataclass'')"
  by (simp add: from_import_def import_module_raises)

lemma body_up_to_line_322:
  "exec_body builtins (take 11 module_body) = Inr globals_at_line_322"
  by (simp add: module_body_def builtins_def globals_at_line_322_def)

lemma class_statement_line_322:
  "exec_stmt globals_at_line_322 (module_body ! 11) = Inl (NameError ''dataclass'')"
  by (simp add: module_body_def builtins_def globals_at_line_322_def)

text \<open>
  Were \<open>dataclass\<close> bound when the body starts, as after
  \<open>from dataclasses import dataclass\<close>, the body would run to its end. \<open>ActionRow\<close> is
  not among the names it binds.
\<close>

lemma body_given_dataclass:
  "exec_body (''dataclass'' # builtins) module_body =
     Inr [''Separator'', ''SeparatorSpacing'', ''File'', ''MediaGallery'',
      ''MediaGalleryItem'', ''Thumbnail'', ''Container'', ''TextDisplay'',
      ''Section'', ''__all__'', ''MISSING'', ''ComponentType'',
      ''Component'', ''Button'', ''ClassVar'', ''List'', ''Literal'',
      ''Optional'', ''TYPE_CHECKING'', ''Tuple'', ''Union'', ''Dict'',
      ''Any'', ''annotations'', ''dataclass'', ''property'', ''isinstance'',
      ''all'', ''len'', ''ValueError'', ''TypeError'']"
  by (simp add: module_body_def builtins_def)

section \<open>Name lookups and the constructors' case analysis\<close>

lemma load_globals_TextDisplay:
  "load_globals ns [''TextDisplay''] =
     (if ''TextDisplay'' \<in> set ns then Inr [TextDisplay_cls]
      else Inl (NameError ''TextDisplay''))"
  by (simp add: load_global_def classes_def)

lemma load_globals_accessory:
  "load_globals ns [''Button'', ''Thumbnail''] =
     (if ''Button'' \<notin> set ns then Inl (NameError ''Button'')
      else if ''Thumbnail'' \<notin> set ns then Inl (NameError ''Thumbnail'')
      else Inr [Button_cls, Thumbnail_cls])"
  by (simp add: load_global_def classes_def)

lemma load_globals_MediaGalleryItem:
  "load_globals ns [''MediaGalleryItem''] =
     (if ''MediaGalleryItem'' \<in> set ns then Inr [MediaGalleryItem_cls]
      else Inl (NameError ''MediaGalleryItem''))"
  by (simp add: load_global_def classes_def)

lemma load_globals_valid_types:
  "load_globals ns [''ActionRow'', ''TextDisplay'', ''Section'', ''MediaGallery'',
                    ''Separator'', ''File''] =
     (if ''ActionRow'' \<notin> set ns then Inl (NameError ''ActionRow'')
      else if ''TextDisplay'' \<notin> set ns then Inl (NameError ''TextDisplay'')
      else if ''Section'' \<notin> set ns then Inl (NameError ''Section'')
      else if ''MediaGallery'' \<notin> set ns then Inl (NameError ''MediaGallery'')
      else if ''Separator'' \<notin> set ns then Inl (NameError ''Separator'')
      else if ''File'' \<notin> set ns then Inl (NameError ''File'')
      else Inr [ActionRow_cls, TextDisplay_cls, Section_cls, MediaGallery_cls, Separator_cls,
                File_cls])"
  by (simp add: load_global_def classes_def)

lemma Section_init_cases:
  "Section_init ns cs acc i =
     (if cs = [] then Inl (ValueError ''Section must contain at least one text component'')
      else if 3 < length cs then
        Inl (ValueError ''Section can only contain up to 3 text components'')
      else if ''TextDisplay'' \<notin> set ns then Inl (NameError ''TextDisplay'')
      else if \<not> list_all (\<lambda>comp. class_of comp = TextDisplay_cls) cs then
        Inl (TypeError ''All components must be TextDisplay instances'')
      else
        (case acc of
           None \<Rightarrow> Inr (Section cs acc i)
         | Some a \<Rightarrow>
             if ''Button'' \<notin> set ns then Inl (NameError ''Button'')
             else if ''Thumbnail'' \<notin> set ns then Inl (NameError ''Thumbnail'')
             else if class_of a = Button_cls \<or> class_of a = Thumbnail_cls then
               Inr (Section cs acc i)
             else Inl (TypeError ''Accessory must be either a Button or Thumbnail instance'')))"
  unfolding Section_init_def load_globals_TextDisplay load_globals_accessory
  by (simp add: isinstance_def split: option.split)

lemma Container_init_unbound:
  "''ActionRow'' \<notin> set ns \<Longrightarrow>
   Container_init ns cs ac sp i =
     (if cs = [] then Inl (ValueError ''Container must contain at least one component'')
      else Inl (NameError ''ActionRow''))"
  unfolding Container_init_def load_globals_valid_types by simp

lemma MediaGallery_init_cases:
  "MediaGallery_init ns its i =
     (if its = [] then Inl (ValueError ''MediaGallery must contain at least one item'')
      else if 10 < length its then
        Inl (ValueError ''MediaGallery can only contain up to 10 items'')
      else if ''MediaGalleryItem'' \<notin> set ns then Inl (NameError ''MediaGalleryItem'')
      else if \<not> list_all (\<lambda>item. class_of item = MediaGalleryItem_cls) its then
        Inl (TypeError ''All items must be MediaGalleryItem instances'')
      else Inr (MediaGallery its i))"
  unfolding MediaGallery_init_def load_globals_MediaGalleryItem
  by (simp add: isinstance_def)

lemma Separator_init_cases:
  "Separator_init ns dv s i =
     (if ''SeparatorSpacing'' \<notin> set ns then Inl (NameError ''SeparatorSpacing'')
      else if s = 1 \<or> s = 2 then Inr (Separator dv s i)
      else Inl (ValueError
          ''spacing must be either SeparatorSpacing.SMALL or SeparatorSpacing.LARGE''))"
  by (simp add: Separator_init_def SeparatorSpacing_SMALL_def SeparatorSpacing_LARGE_def)

lemma Container_init_Inr:
  "Container_init ns cs ac sp i = Inr n \<Longrightarrow>
   n = Container cs ac sp i \<and>
   list_all (\<lambda>comp. class_of comp \<in> {ActionRow_cls, TextDisplay_cls, Section_cls,
     MediaGallery_cls, Separator_cls, File_cls}) cs"
  unfolding Container_init_def load_globals_valid_types
  by (simp add: isinstance_def split: if_splits option.splits)

lemma Container_init_ValueError_empty:
  "(Container_init ns cs ac sp i =
       Inl (ValueError ''Container must contain at least one component'')) = (cs = [])"
  unfolding Container_init_def load_globals_valid_types
  by (simp split: option.splits)

lemma collect_map_Inr: "collect (map Inr js) = Inr js"
  by (induction js) simp_all

lemma collect_InrD: "collect rs = Inr js \<Longrightarrow> rs = map Inr js"
  by (induction rs arbitrary: js) (auto split: sum.splits)

lemma collect_Inr_iff: "collect rs = Inr js \<longleftrightarrow> rs = map Inr js"
  using collect_map_Inr collect_InrD by blast

section \<open>What a successful \<open>to_dict\<close> returned\<close>

lemma to_dict_Section_Inr:
  "to_dict (Section cs acc i) = Inr j \<longleftrightarrow>
     (\<exists>js. map to_dict cs = map Inr js \<and>
        ((acc = None \<and>
          j = JObj ([(''type'', JInt 9), (''components'', JArr js)] @ opt_id i)) \<or>
         (\<exists>a ja. acc = Some a \<and> to_dict a = Inr ja \<and>
          j = JObj ([(''type'', JInt 9), (''components'', JArr js), (''accessory'', ja)]
                    @ opt_id i))))"
  by (auto simp add: collect_Inr_iff collect_map_Inr split: sum.splits option.splits)

lemma to_dict_Container_Inr:
  "to_dict (Container cs ac sp i) = Inr j \<longleftrightarrow>
     (\<exists>js. map to_dict cs = map Inr js \<and>
        j = JObj ([(''type'', JInt 17), (''components'', JArr js)]
                  @ (case ac of None \<Rightarrow> [] | Some v \<Rightarrow> [(''accent_color'', JInt v)])
                  @ opt_spoiler sp @ opt_id i))"
  by (auto simp add: collect_Inr_iff collect_map_Inr split: sum.splits)

lemma to_dict_MediaGallery_Inr:
  "to_dict (MediaGallery its i) = Inr j \<longleftrightarrow>
     (\<exists>js. map to_dict its = map Inr js \<and>
        j = JObj ([(''type'', JInt 12), (''items'', JArr js)] @ opt_id i))"
  by (auto simp add: collect_Inr_iff collect_map_Inr split: sum.splits)

lemma map_eq_nthD:
  "map f xs = map g ys \<Longrightarrow> length ys = length xs \<and> (\<forall>k<length xs. f (xs ! k) = g (ys ! k))"
  by (metis length_map nth_map)

section \<open>The end-to-end example\<close>

text \<open>
  Claim C1. The spec's example
  \<open>Container(components=[Section(components=[TextDisplay(content="hi")])],
  accent_color=0x5865F2)\<close> is to serialize to the object with tags 17, 9 and 10 and the
  accent colour 5793266. On the code the program that imports the module, builds the three
  nodes and calls \<open>to_dict\<close> ends in the \<open>NameError\<close> for \<open>dataclass\<close>, raised by the
  import. That is not the only slip in its way: with \<open>dataclass\<close> bound the import
  completes and \<open>Section\<close> is built, and then \<open>Container.__init__\<close> raises \<open>NameError\<close>
  for \<open>ActionRow\<close> when it builds \<open>valid_types\<close>. The body of \<open>Container.to_dict\<close>
  itself, on an object with these attributes, returns the payload of the spec.
\<close>

theorem C1_example_raises_NameError:
  "from_import (\<lambda>ns.
     and_then (TextDisplay_init ''hi'' None) (\<lambda>text_display.
     and_then (Section_init ns [text_display] None None) (\<lambda>section.
     and_then (Container_init ns [section] (Some 0x5865F2) False None) to_dict))) =
     Inl (NameError ''dataclass'') \<and>
   (\<exists>ns. exec_body (''dataclass'' # builtins) module_body = Inr ns \<and>
      Section_init ns [TextDisplay ''hi'' None] None None =
        Inr (Section [TextDisplay ''hi'' None] None None) \<and>
      Container_init ns [Section [TextDisplay ''hi'' None] None None] (Some 0x5865F2) False None =
        Inl (NameError ''ActionRow'')) \<and>
   to_dict (Container [Section [TextDisplay ''hi'' None] None None] (Some 0x5865F2) False None) =
     Inr (JObj [(''type'', JInt 17),
                (''components'',
                 JArr [JObj [(''type'', JInt 9),
                             (''components'',
                              JArr [JObj [(''type'', JInt 10), (''content'', JStr ''hi'')]])]]),
                (''accent_color'', JInt 5793266)])"
  by (simp add: from_import_raises body_given_dataclass Section_init_cases Container_init_unbound
      opt_id_def opt_spoiler_def)

section \<open>Range checks\<close>

text \<open>
  Claim C7. Range checks are to be inclusive at both ends: a \<open>Container\<close> with accent
  colour 0 or 0xFFFFFF is accepted, one with -1 or 0x1000000 is refused with the range
  error, and a \<open>Separator\<close> accepts the spacings 1 and 2 only. On the code none of the
  accepted inputs is accepted: the import raises the \<open>NameError\<close> for \<open>dataclass\<close>.
  With \<open>dataclass\<close> bound, \<open>Separator.__init__\<close> does what the claim says, and the range
  check of \<open>Container.__init__\<close> is still never reached: all four colours end in the
  \<open>NameError\<close> for \<open>ActionRow\<close>.
\<close>

theorem C7_range_checks_unreachable:
  "from_import (\<lambda>ns. Container_init ns [TextDisplay ''x'' None] (Some 0) False None) =
     Inl (NameError ''dataclass'') \<and>
   from_import (\<lambda>ns. Container_init ns [TextDisplay ''x'' None] (Some 0xFFFFFF) False None) =
     Inl (NameError ''dataclass'') \<and>
   from_import (\<lambda>ns. Separator_init ns True 1 None) = Inl (NameError ''dataclass'') \<and>
   from_import (\<lambda>ns. Separator_init ns True 2 None) = Inl (NameError ''dataclass'') \<and>
   (\<exists>ns. exec_body (''dataclass'' # builtins) module_body = Inr ns \<and>
      Container_init ns [TextDisplay ''x'' None] (Some 0) False None =
        Inl (NameError ''ActionRow'') \<and>
      Container_init ns [TextDisplay ''x'' None] (Some 0xFFFFFF) False None =
        Inl (NameError ''ActionRow'') \<and>
      Container_init ns [TextDisplay ''x'' None] (Some (- 1)) False None =
        Inl (NameError ''ActionRow'') \<and>
      Container_init ns [TextDisplay ''x'' None] (Some 0x1000000) False None =
        Inl (NameError ''ActionRow'') \<and>
      Separator_init ns True 1 None = Inr (Separator True 1 None) \<and>
      Separator_init ns True 2 None = Inr (Separator True 2 None) \<and>
      Separator_init ns True 3 None =
        Inl (ValueError
          ''spacing must be either SeparatorSpacing.SMALL or SeparatorSpacing.LARGE''))"
  by (simp add: from_import_raises body_given_dataclass Container_init_unbound
      Separator_init_cases)

section \<open>Constructors without checks\<close>

text \<open>
  Claim C10. The constructors of \<open>TextDisplay\<close>, \<open>Thumbnail\<close>, \<open>File\<close> and
  \<open>MediaGalleryItem\<close> are to succeed for all arguments of the declared types and to
  store them unchanged. On the code no call of any of them returns: for all arguments the
  program that imports the module and calls the constructor ends in the \<open>NameError\<close> for
  \<open>dataclass\<close>, and the class statement of \<open>MediaGalleryItem\<close> is the statement that
  raises it, so that class is never created. The bodies of the three \<open>__init__\<close> methods
  do store their arguments unchanged.
\<close>

theorem C10_no_constructor_callable:
  "from_import (\<lambda>ns. TextDisplay_init c i) = Inl (NameError ''dataclass'') \<and>
   from_import (\<lambda>ns. Thumbnail_init u d sp i) = Inl (NameError ''dataclass'') \<and>
   from_import (\<lambda>ns. File_init f sp i) = Inl (NameError ''dataclass'') \<and>
   exec_stmt globals_at_line_322 (ClassDef ''MediaGalleryItem'' [''dataclass''] [] []) =
     Inl (NameError ''dataclass'') \<and>
   TextDisplay_init c i = Inr (TextDisplay c i) \<and>
   Thumbnail_init u d sp i = Inr (Thumbnail u d sp i) \<and>
   File_init f sp i = Inr (File f sp i)"
  by (simp add: from_import_raises globals_at_line_322_def builtins_def TextDisplay_init_def
      Thumbnail_init_def File_init_def)

section \<open>Payloads against the declared payload types\<close>


section \<open>Media references\<close>

text \<open>
  Claim C8. A media reference is a nested object. For every \<open>Thumbnail\<close> and every
  \<open>MediaGalleryItem\<close>, whatever its attributes, \<open>to_dict\<close> returns a payload that maps
  \<open>media\<close> to \<open>{"url": media_url}\<close>; for every \<open>File\<close> it returns one that maps
  \<open>file\<close> to \<open>{"url": "attachment://" + filename}\<close>, which depends on the file name
  alone; and none of the three has a key \<open>url\<close> of its own.
\<close>

theorem C8_media_reference_nested:
  "(\<exists>j. to_dict (Thumbnail u d sp i) = Inr j \<and>
        payload_get j ''media'' = Some (JObj [(''url'', JStr u)]) \<and>
        payload_get j ''url'' = None) \<and>
   (\<exists>j. to_dict (MediaGalleryItem u d sp) = Inr j \<and>
        payload_get j ''media'' = Some (JObj [(''url'', JStr u)]) \<and>
        payload_get j ''url'' = None) \<and>
   (\<exists>j. to_dict (File f sp i) = Inr j \<and>
        payload_get j ''file'' = Some (JObj [(''url'', JStr (''attachment://'' @ f))]) \<and>
        payload_get j ''url'' = None)"
  by (simp add: opt_id_def opt_spoiler_def opt_description_def split: option.split)

section \<open>Omission of defaults\<close>

text \<open>
  Claim C2. For every object of every kind, whatever its attributes, and every optional
  field of the kind, the payload \<open>to_dict\<close> returns has the key of the field exactly when
  the field is not at its default, and then with the stored value: \<open>id\<close>,
  \<open>description\<close> and \<open>accent_color\<close> are absent for \<open>None\<close> and carry the value
  otherwise, \<open>spoiler\<close> is absent for \<open>False\<close>, \<open>divider\<close> is absent for \<open>True\<close>,
  \<open>spacing\<close> is absent for 1, and \<open>accessory\<close> is absent for \<open>None\<close> and carries the
  payload of the accessory otherwise. For the three kinds with children the statement is
  about the payload of a \<open>to_dict\<close> that returned.
\<close>

theorem C2_default_omission:
  "(\<exists>j. to_dict (TextDisplay c i1) = Inr j \<and> payload_get j ''id'' = map_option JInt i1) \<and>
   (\<exists>j. to_dict (Thumbnail u d sp i2) = Inr j \<and>
        payload_get j ''description'' = map_option JStr d \<and>
        payload_get j ''spoiler'' = (if sp then Some (JBool sp) else None) \<and>
        payload_get j ''id'' = map_option JInt i2) \<and>
   (\<exists>j. to_dict (MediaGalleryItem u' d' sp') = Inr j \<and>
        payload_get j ''description'' = map_option JStr d' \<and>
        payload_get j ''spoiler'' = (if sp' then Some (JBool sp') else None)) \<and>
   (\<exists>j. to_dict (File f sp3 i3) = Inr j \<and>
        payload_get j ''spoiler'' = (if sp3 then Some (JBool sp3) else None) \<and>
        payload_get j ''id'' = map_option JInt i3) \<and>
   (\<exists>j. to_dict (Separator dv s i4) = Inr j \<and>
        payload_get j ''divider'' = (if dv then None else Some (JBool dv)) \<and>
        payload_get j ''spacing'' = (if s = 1 then None else Some (JInt s)) \<and>
        payload_get j ''id'' = map_option JInt i4) \<and>
   (\<forall>j. to_dict (Section cs acc i5) = Inr j \<longrightarrow>
        ((acc = None \<and> payload_get j ''accessory'' = None) \<or>
         (\<exists>a ja. acc = Some a \<and> to_dict a = Inr ja \<and>
                  payload_get j ''accessory'' = Some ja)) \<and>
        payload_get j ''id'' = map_option JInt i5) \<and>
   (\<forall>j. to_dict (MediaGallery its i6) = Inr j \<longrightarrow>
        payload_get j ''id'' = map_option JInt i6) \<and>
   (\<forall>j. to_dict (Container cs' ac sp7 i7) = Inr j \<longrightarrow>
        payload_get j ''accent_color'' = map_option JInt ac \<and>
        payload_get j ''spoiler'' = (if sp7 then Some (JBool sp7) else None) \<and>
        payload_get j ''id'' = map_option JInt i7)"
proof (intro conjI allI impI)
  show "\<exists>j. to_dict (TextDisplay c i1) = Inr j \<and> payload_get j ''id'' = map_option JInt i1"
    by (simp add: opt_id_def split: option.split)
  show "\<exists>j. to_dict (Thumbnail u d sp i2) = Inr j \<and>
        payload_get j ''description'' = map_option JStr d \<and>
        payload_get j ''spoiler'' = (if sp then Some (JBool sp) else None) \<and>
        payload_get j ''id'' = map_option JInt i2"
    by (simp add: opt_id_def opt_spoiler_def opt_description_def split: option.split)
  show "\<exists>j. to_dict (MediaGalleryItem u' d' sp') = Inr j \<and>
        payload_get j ''description'' = map_option JStr d' \<and>
        payload_get j ''spoiler'' = (if sp' then Some (JBool sp') else None)"
    by (simp add: opt_spoiler_def opt_description_def split: option.split)
  show "\<exists>j. to_dict (File f sp3 i3) = Inr j \<and>
        payload_get j ''spoiler'' = (if sp3 then Some (JBool sp3) else None) \<and>
        payload_get j ''id'' = map_option JInt i3"
    by (simp add: opt_id_def opt_spoiler_def split: option.split)
  show "\<exists>j. to_dict (Separator dv s i4) = Inr j \<and>
        payload_get j ''divider'' = (if dv then None else Some (JBool dv)) \<and>
        payload_get j ''spacing'' = (if s = 1 then None else Some (JInt s)) \<and>
        payload_get j ''id'' = map_option JInt i4"
    by (simp add: opt_id_def SeparatorSpacing_SMALL_def split: option.split)
next
  fix j assume "to_dict (Section cs acc i5) = Inr j"
  then show "(acc = None \<and> payload_get j ''accessory'' = None) \<or>
         (\<exists>a ja. acc = Some a \<and> to_dict a = Inr ja \<and> payload_get j ''accessory'' = Some ja)"
    and "payload_get j ''id'' = map_option JInt i5"
    unfolding to_dict_Section_Inr
    by (auto simp add: opt_id_def split: option.splits)
next
  fix j assume "to_dict (MediaGallery its i6) = Inr j"
  then show "payload_get j ''id'' = map_option JInt i6"
    unfolding to_dict_MediaGallery_Inr
    by (auto simp add: opt_id_def split: option.splits)
next
  fix j assume h: "to_dict (Container cs' ac sp7 i7) = Inr j"
  then show "payload_get j ''accent_color'' = map_option JInt ac"
    unfolding to_dict_Container_Inr
    by (auto simp add: opt_id_def opt_spoiler_def split: option.splits)
  from h show "payload_get j ''spoiler'' = (if sp7 then Some (JBool sp7) else None)"
    unfolding to_dict_Container_Inr
    by (auto simp add: opt_id_def opt_spoiler_def split: option.splits)
  from h show "payload_get j ''id'' = map_option JInt i7"
    unfolding to_dict_Container_Inr
    by (auto simp add: opt_id_def opt_spoiler_def split: option.splits)
qed

text \<open>
  The three statements about a \<open>to_dict\<close> that returned, used on a \<open>Section\<close> with an
  accessory and an id, a \<open>MediaGallery\<close> with an id, a \<open>Container\<close> with every optional
  field set and one with every optional field at its default.
\<close>

theorem C2_witness:
  "(\<exists>j ja. to_dict (Section [TextDisplay ''a'' None] (Some (Thumbnail ''u'' None False None))
                   (Some 7)) = Inr j \<and>
      to_dict (Thumbnail ''u'' None False None) = Inr ja \<and>
      payload_get j ''accessory'' = Some ja \<and>
      payload_get j ''id'' = Some (JInt 7)) \<and>
   (\<exists>j. to_dict (MediaGallery [MediaGalleryItem ''u'' None False] (Some 2)) = Inr j \<and>
      payload_get j ''id'' = Some (JInt 2)) \<and>
   (\<exists>j. to_dict (Container [TextDisplay ''a'' None] (Some 5) True (Some 9)) = Inr j \<and>
      payload_get j ''accent_color'' = Some (JInt 5) \<and>
      payload_get j ''spoiler'' = Some (JBool True) \<and>
      payload_get j ''id'' = Some (JInt 9)) \<and>
   (\<exists>j. to_dict (Container [TextDisplay ''a'' None] None False None) = Inr j \<and>
      payload_get j ''accent_color'' = None \<and>
      payload_get j ''spoiler'' = None \<and>
      payload_get j ''id'' = None)"
proof -
  let ?t = "Thumbnail ''u'' None False None"
  let ?s = "Section [TextDisplay ''a'' None] (Some ?t) (Some 7)"
  let ?m = "MediaGallery [MediaGalleryItem ''u'' None False] (Some 2)"
  let ?c = "Container [TextDisplay ''a'' None] (Some 5) True (Some 9)"
  let ?c' = "Container [TextDisplay ''a'' None] None False None"
  note t = C2_default_omission [where cs = "[TextDisplay ''a'' None]" and acc = "Some ?t"
      and ?i5.0 = "Some 7" and its = "[MediaGalleryItem ''u'' None False]" and ?i6.0 = "Some 2"
      and cs' = "[TextDisplay ''a'' None]" and ac = "Some 5" and ?sp7.0 = True
      and ?i7.0 = "Some 9"]
  note t' = C2_default_omission [where cs' = "[TextDisplay ''a'' None]" and ac = None
      and ?sp7.0 = False and ?i7.0 = None]
  obtain j1 where h1: "to_dict ?s = Inr j1"
    by (simp add: opt_id_def opt_spoiler_def opt_description_def)
  obtain j2 where h2: "to_dict ?m = Inr j2"
    by (simp add: opt_id_def opt_spoiler_def opt_description_def)
  obtain j3 where h3: "to_dict ?c = Inr j3"
    by (simp add: opt_id_def opt_spoiler_def)
  obtain j4 where h4: "to_dict ?c' = Inr j4"
    by (simp add: opt_id_def opt_spoiler_def)
  from t h1 have p1: "\<exists>ja. to_dict ?t = Inr ja \<and> payload_get j1 ''accessory'' = Some ja"
    and q1: "payload_get j1 ''id'' = Some (JInt 7)"
    by auto
  from t h2 have p2: "payload_get j2 ''id'' = Some (JInt 2)" by auto
  from t h3 have p3: "payload_get j3 ''accent_color'' = Some (JInt 5)"
    "payload_get j3 ''spoiler'' = Some (JBool True)" "payload_get j3 ''id'' = Some (JInt 9)"
    by auto
  from t' h4 have p4: "payload_get j4 ''accent_color'' = None"
    "payload_get j4 ''spoiler'' = None" "payload_get j4 ''id'' = None"
    by auto
  from h1 p1 q1 h2 p2 h3 p3 h4 p4 show ?thesis by blast
qed

section \<open>Order of children\<close>

text \<open>
  Claim C9. For every \<open>Section\<close>, \<open>Container\<close> and \<open>MediaGallery\<close>, whatever its
  attributes, the payload of a \<open>to_dict\<close> that returned holds under \<open>components\<close>
  (under \<open>items\<close> for a \<open>MediaGallery\<close>) an array as long as the stored list of
  children, whose element at each index is the payload of the child stored at that index.
\<close>

theorem C9_order_preserved:
  "(\<forall>j. to_dict (Section cs acc i) = Inr j \<longrightarrow>
        (\<exists>js. payload_get j ''components'' = Some (JArr js) \<and> length js = length cs \<and>
              (\<forall>k<length cs. to_dict (cs ! k) = Inr (js ! k)))) \<and>
   (\<forall>j. to_dict (Container cs' ac sp i') = Inr j \<longrightarrow>
        (\<exists>js. payload_get j ''components'' = Some (JArr js) \<and> length js = length cs' \<and>
              (\<forall>k<length cs'. to_dict (cs' ! k) = Inr (js ! k)))) \<and>
   (\<forall>j. to_dict (MediaGallery its i'') = Inr j \<longrightarrow>
        (\<exists>js. payload_get j ''items'' = Some (JArr js) \<and> length js = length its \<and>
              (\<forall>k<length its. to_dict (its ! k) = Inr (js ! k))))"
proof (intro conjI allI impI)
  fix j assume "to_dict (Section cs acc i) = Inr j"
  then obtain js where m: "map to_dict cs = map Inr js"
    and g: "payload_get j ''components'' = Some (JArr js)"
    unfolding to_dict_Section_Inr by auto
  from map_eq_nthD [OF m] g
  show "\<exists>js. payload_get j ''components'' = Some (JArr js) \<and> length js = length cs \<and>
              (\<forall>k<length cs. to_dict (cs ! k) = Inr (js ! k))"
    by blast
next
  fix j assume "to_dict (Container cs' ac sp i') = Inr j"
  then obtain js where m: "map to_dict cs' = map Inr js"
    and g: "payload_get j ''components'' = Some (JArr js)"
    unfolding to_dict_Container_Inr by auto
  from map_eq_nthD [OF m] g
  show "\<exists>js. payload_get j ''components'' = Some (JArr js) \<and> length js = length cs' \<and>
              (\<forall>k<length cs'. to_dict (cs' ! k) = Inr (js ! k))"
    by blast
next
  fix j assume "to_dict (MediaGallery its i'') = Inr j"
  then obtain js where m: "map to_dict its = map Inr js"
    and g: "payload_get j ''items'' = Some (JArr js)"
    unfolding to_dict_MediaGallery_Inr by auto
  from map_eq_nthD [OF m] g
  show "\<exists>js. payload_get j ''items'' = Some (JArr js) \<and> length js = length its \<and>
              (\<forall>k<length its. to_dict (its ! k) = Inr (js ! k))"
    by blast
qed

text \<open>
  The statement used on a \<open>Section\<close> of two texts, on a \<open>Container\<close> holding a
  \<open>Section\<close>, a \<open>Separator\<close> and a \<open>Section\<close> in this order, and on a
  \<open>MediaGallery\<close> of two items.
\<close>

theorem C9_witness:
  "(\<exists>j js. to_dict (Section [TextDisplay ''x'' None, TextDisplay ''y'' None] None None) = Inr j \<and>
      payload_get j ''components'' = Some (JArr js) \<and> length js = 2 \<and>
      to_dict (TextDisplay ''x'' None) = Inr (js ! 0) \<and>
      to_dict (TextDisplay ''y'' None) = Inr (js ! 1)) \<and>
   (\<exists>j js. to_dict (Container [Section [TextDisplay ''A'' None] None None,
                               Separator True 1 None,
                               Section [TextDisplay ''B'' None] None None] None False None) =
        Inr j \<and>
      payload_get j ''components'' = Some (JArr js) \<and> length js = 3 \<and>
      to_dict (Section [TextDisplay ''A'' None] None None) = Inr (js ! 0) \<and>
      to_dict (Separator True 1 None) = Inr (js ! 1) \<and>
      to_dict (Section [TextDisplay ''B'' None] None None) = Inr (js ! 2)) \<and>
   (\<exists>j js. to_dict (MediaGallery [MediaGalleryItem ''u1'' None False,
                                  MediaGalleryItem ''u2'' None True] None) = Inr j \<and>
      payload_get j ''items'' = Some (JArr js) \<and> length js = 2 \<and>
      to_dict (MediaGalleryItem ''u1'' None False) = Inr (js ! 0) \<and>
      to_dict (MediaGalleryItem ''u2'' None True) = Inr (js ! 1))"
proof -
  let ?cs = "[TextDisplay ''x'' None, TextDisplay ''y'' None]"
  let ?cs' = "[Section [TextDisplay ''A'' None] None None, Separator True 1 None,
               Section [TextDisplay ''B'' None] None None]"
  let ?its = "[MediaGalleryItem ''u1'' None False, MediaGalleryItem ''u2'' None True]"
  note t = C9_order_preserved [of ?cs None None ?cs' None False None ?its None]
  obtain j1 where h1: "to_dict (Section ?cs None None) = Inr j1"
    by (simp add: opt_id_def)
  obtain j2 where h2: "to_dict (Container ?cs' None False None) = Inr j2"
    by (simp add: opt_id_def opt_spoiler_def SeparatorSpacing_SMALL_def)
  obtain j3 where h3: "to_dict (MediaGallery ?its None) = Inr j3"
    by (simp add: opt_id_def opt_spoiler_def opt_description_def)
  from t h1 obtain js1 where a1: "payload_get j1 ''components'' = Some (JArr js1)"
    and b1: "length js1 = length ?cs" and c1: "\<forall>k<length ?cs. to_dict (?cs ! k) = Inr (js1 ! k)"
    by blast
  from t h2 obtain js2 where a2: "payload_get j2 ''components'' = Some (JArr js2)"
    and b2: "length js2 = length ?cs'"
    and c2: "\<forall>k<length ?cs'. to_dict (?cs' ! k) = Inr (js2 ! k)"
    by blast
  from t h3 obtain js3 where a3: "payload_get j3 ''items'' = Some (JArr js3)"
    and b3: "length js3 = length ?its"
    and c3: "\<forall>k<length ?its. to_dict (?its ! k) = Inr (js3 ! k)"
    by blast
  have d1: "to_dict (?cs ! 0) = Inr (js1 ! 0)" "to_dict (?cs ! 1) = Inr (js1 ! 1)"
    using c1 [rule_format, of 0] c1 [rule_format, of 1] by simp_all
  have d2: "to_dict (?cs' ! 0) = Inr (js2 ! 0)" "to_dict (?cs' ! 1) = Inr (js2 ! 1)"
    "to_dict (?cs' ! 2) = Inr (js2 ! 2)"
    using c2 [rule_format, of 0] c2 [rule_format, of 1] c2 [rule_format, of 2] by simp_all
  have d3: "to_dict (?its ! 0) = Inr (js3 ! 0)" "to_dict (?its ! 1) = Inr (js3 ! 1)"
    using c3 [rule_format, of 0] c3 [rule_format, of 1] by simp_all
  have p1: "\<exists>j js. to_dict (Section ?cs None None) = Inr j \<and>
      payload_get j ''components'' = Some (JArr js) \<and> length js = 2 \<and>
      to_dict (TextDisplay ''x'' None) = Inr (js ! 0) \<and>
      to_dict (TextDisplay ''y'' None) = Inr (js ! 1)"
    using h1 a1 b1 d1 by (intro exI [of _ j1] exI [of _ js1]) simp
  have p2: "\<exists>j js. to_dict (Container ?cs' None False None) = Inr j \<and>
      payload_get j ''components'' = Some (JArr js) \<and> length js = 3 \<and>
      to_dict (Section [TextDisplay ''A'' None] None None) = Inr (js ! 0) \<and>
      to_dict (Separator True 1 None) = Inr (js ! 1) \<and>
      to_dict (Section [TextDisplay ''B'' None] None None) = Inr (js ! 2)"
    using h2 a2 b2 d2 by (intro exI [of _ j2] exI [of _ js2]) simp
  have p3: "\<exists>j js. to_dict (MediaGallery ?its None) = Inr j \<and>
      payload_get j ''items'' = Some (JArr js) \<and> length js = 2 \<and>
      to_dict (MediaGalleryItem ''u1'' None False) = Inr (js ! 0) \<and>
      to_dict (MediaGalleryItem ''u2'' None True) = Inr (js ! 1)"
    using h3 a3 b3 d3 by (intro exI [of _ j3] exI [of _ js3]) simp
  from p1 p2 p3 show ?thesis by blast
qed

section \<open>Serialization of what a constructor returned\<close>

lemma collect_all_Inr:
  "list_all (\<lambda>c. \<exists>j. f c = Inr j) cs \<Longrightarrow> \<exists>js. collect (map f cs) = Inr js"
  by (induction cs) auto

lemma collect_Inl: "collect rs = Inl e \<Longrightarrow> Inl e \<in> set rs"
  by (induction rs) (auto split: sum.splits)

text \<open>The only exception a \<open>to_dict\<close> call can end in is the one of a foreign object
  that has no such method.\<close>

lemma to_dict_Inl: "to_dict n = Inl e \<Longrightarrow> e = AttributeError ''to_dict''"
proof (induction n arbitrary: e rule: to_dict.induct)
  case (3 cs acc i)
  show ?case
  proof (cases "collect (map to_dict cs)")
    case (Inl e')
    with "3.prems" have "collect (map to_dict cs) = Inl e" by simp
    then have "Inl e \<in> set (map to_dict cs)" by (rule collect_Inl)
    then obtain c where "c \<in> set cs" "to_dict c = Inl e" by auto
    then show ?thesis using "3.IH"(1) by blast
  next
    case (Inr js)
    with "3.prems" obtain a where a: "acc = Some a" "to_dict a = Inl e"
      by (auto split: option.splits sum.splits)
    with Inr "3.IH"(2) show ?thesis by blast
  qed
next
  case (5 cs ac sp i)
  from "5.prems" have "collect (map to_dict cs) = Inl e"
    by (auto split: sum.splits)
  then have "Inl e \<in> set (map to_dict cs)" by (rule collect_Inl)
  then obtain c where "c \<in> set cs" "to_dict c = Inl e" by auto
  then show ?case using "5.IH" by blast
next
  case (8 its i)
  from "8.prems" have "collect (map to_dict its) = Inl e"
    by (auto split: sum.splits)
  then have "Inl e \<in> set (map to_dict its)" by (rule collect_Inl)
  then obtain c where "c \<in> set its" "to_dict c = Inl e" by auto
  then show ?case using "8.IH" by blast
qed simp_all

text \<open>The checks a constructor made before it returned leave no foreign object among
  the children.\<close>

lemma to_dict_obtainable:
  "obtainable ns n \<Longrightarrow> class_of n \<noteq> Other_cls \<Longrightarrow> \<exists>j. to_dict n = Inr j"
proof (induction n)
  case (Section cs acc i)
  from Section.prems have ob: "list_all (obtainable ns) cs"
    and oa: "\<And>a. acc = Some a \<Longrightarrow> obtainable ns a"
    and si: "Section_init ns cs acc i = Inr (Section cs acc i)"
    by (auto split: option.splits)
  from si have td: "list_all (\<lambda>comp. class_of comp = TextDisplay_cls) cs"
    and ac: "\<And>a. acc = Some a \<Longrightarrow> class_of a = Button_cls \<or> class_of a = Thumbnail_cls"
    unfolding Section_init_cases by (auto split: if_splits option.splits)
  have "list_all (\<lambda>c. \<exists>j. to_dict c = Inr j) cs"
    using ob td Section.IH(1) by (auto simp add: list_all_iff)
  then obtain js where js: "collect (map to_dict cs) = Inr js"
    using collect_all_Inr by blast
  show ?case
  proof (cases acc)
    case None
    with js show ?thesis by simp
  next
    case (Some a)
    with oa ac Section.IH(2) obtain ja where "to_dict a = Inr ja" by fastforce
    with js Some show ?thesis by simp
  qed
next
  case (Container cs ac sp i)
  from Container.prems have ob: "list_all (obtainable ns) cs"
    and ci: "Container_init ns cs ac sp i = Inr (Container cs ac sp i)"
    by auto
  from Container_init_Inr [OF ci]
  have "list_all (\<lambda>comp. class_of comp \<noteq> Other_cls) cs"
    by (auto simp add: list_all_iff)
  with ob Container.IH have "list_all (\<lambda>c. \<exists>j. to_dict c = Inr j) cs"
    by (auto simp add: list_all_iff)
  then obtain js where "collect (map to_dict cs) = Inr js"
    using collect_all_Inr by blast
  then show ?case by simp
next
  case (MediaGallery its i)
  from MediaGallery.prems have ob: "list_all (obtainable ns) its"
    and mi: "MediaGallery_init ns its i = Inr (MediaGallery its i)"
    by auto
  from mi have "list_all (\<lambda>item. class_of item = MediaGalleryItem_cls) its"
    unfolding MediaGallery_init_cases by (auto split: if_splits)
  with ob MediaGallery.IH have "list_all (\<lambda>c. \<exists>j. to_dict c = Inr j) its"
    by (auto simp add: list_all_iff)
  then obtain js where "collect (map to_dict its) = Inr js"
    using collect_all_Inr by blast
  then show ?case by simp
qed simp_all

text \<open>
  Claim C4. In every namespace, \<open>to_dict\<close> returns a payload for every object of a
  component class that can exist there, that is, whose constructor returned it, and so did
  the constructors of its children. And no \<open>to_dict\<close> call, on any object at all, ends
  in \<open>ValueError\<close>, \<open>TypeError\<close> or \<open>NameError\<close>: the checks are all in the
  constructors.
\<close>

theorem C4_serialize_never_raises:
  "(obtainable ns n \<and> class_of n \<noteq> Other_cls \<longrightarrow> (\<exists>j. to_dict n = Inr j)) \<and>
   (\<forall>e. to_dict n = Inl e \<longrightarrow> e = AttributeError ''to_dict'')"
  using to_dict_obtainable to_dict_Inl by blast

text \<open>
  The statement used in the namespace the module has at line 322, on a \<open>Section\<close> of two
  texts with a \<open>Thumbnail\<close> for its accessory, and on a foreign object.
\<close>

theorem C4_witness:
  "obtainable globals_at_line_322
     (Section [TextDisplay ''a'' None, TextDisplay ''b'' (Some 1)]
        (Some (Thumbnail ''u'' None False None)) (Some 3)) \<and>
   class_of (Section [TextDisplay ''a'' None, TextDisplay ''b'' (Some 1)]
        (Some (Thumbnail ''u'' None False None)) (Some 3)) \<noteq> Other_cls \<and>
   (\<exists>j. to_dict (Section [TextDisplay ''a'' None, TextDisplay ''b'' (Some 1)]
        (Some (Thumbnail ''u'' None False None)) (Some 3)) = Inr j) \<and>
   to_dict Other = Inl (AttributeError ''to_dict'')"
proof -
  let ?n = "Section [TextDisplay ''a'' None, TextDisplay ''b'' (Some 1)]
        (Some (Thumbnail ''u'' None False None)) (Some 3)"
  have o: "obtainable globals_at_line_322 ?n"
    by (simp add: Section_init_cases TextDisplay_init_def Thumbnail_init_def
        globals_at_line_322_def)
  have c: "class_of ?n \<noteq> Other_cls" by simp
  from C4_serialize_never_raises [of globals_at_line_322 ?n] o c
  have "\<exists>j. to_dict ?n = Inr j" by blast
  moreover from C4_serialize_never_raises [of globals_at_line_322 Other]
  have "to_dict Other = Inl (AttributeError ''to_dict'')" by simp
  ultimately show ?thesis using o c by blast
qed

section \<open>Count bounds\<close>

text \<open>
  Claim C5 as stated has the error of a count violation name the actual count. A program
  that imports the module and builds a \<open>Section\<close> of four components ends in the
  \<open>NameError\<close> of the import. The body of \<open>Section.__init__\<close>, given four components,
  raises a \<open>ValueError\<close> with a fixed message, in which no 4 occurs, and given five
  components it raises the very same error.
\<close>

theorem C5_counterexample_message_without_count:
  "from_import (\<lambda>ns. Section_init ns
       [TextDisplay ''a'' None, TextDisplay ''b'' None, TextDisplay ''c'' None,
        TextDisplay ''d'' None] None None) = Inl (NameError ''dataclass'') \<and>
   Section_init globals_at_line_322
       [TextDisplay ''a'' None, TextDisplay ''b'' None, TextDisplay ''c'' None,
        TextDisplay ''d'' None] None None =
     Inl (ValueError ''Section can only contain up to 3 text components'') \<and>
   CHR ''4'' \<notin> set ''Section can only contain up to 3 text components'' \<and>
   Section_init globals_at_line_322
       [TextDisplay ''a'' None, TextDisplay ''b'' None, TextDisplay ''c'' None,
        TextDisplay ''d'' None, TextDisplay ''e'' None] None None =
     Inl (ValueError ''Section can only contain up to 3 text components'')"
  by (simp add: from_import_raises Section_init_cases)

text \<open>
  Claim C5, amended. In every namespace the body of a constructor raises \<open>ValueError\<close>
  with a fixed message that names the kind and the bound when the count is outside the
  bound, and no \<open>ValueError\<close> of a count check when it is inside: \<open>Section.__init__\<close>
  raises one exactly for 0 or more than 3 components, \<open>MediaGallery.__init__\<close> exactly
  for 0 or more than 10 items, and \<open>Container.__init__\<close> raises its own exactly for 0
  components.
\<close>

theorem C5_count_bounds:
  "((Section_init ns cs acc i =
       Inl (ValueError ''Section must contain at least one text component'')) = (cs = [])) \<and>
   ((Section_init ns cs acc i =
       Inl (ValueError ''Section can only contain up to 3 text components'')) =
      (3 < length cs)) \<and>
   ((\<exists>m. Section_init ns cs acc i = Inl (ValueError m)) = (cs = [] \<or> 3 < length cs)) \<and>
   ((MediaGallery_init ns its i' =
       Inl (ValueError ''MediaGallery must contain at least one item'')) = (its = [])) \<and>
   ((MediaGallery_init ns its i' =
       Inl (ValueError ''MediaGallery can only contain up to 10 items'')) =
      (10 < length its)) \<and>
   ((\<exists>m. MediaGallery_init ns its i' = Inl (ValueError m)) = (its = [] \<or> 10 < length its)) \<and>
   ((Container_init ns cs' ac sp i'' =
       Inl (ValueError ''Container must contain at least one component'')) = (cs' = []))"
  by (auto simp add: Section_init_cases MediaGallery_init_cases Container_init_ValueError_empty
      split: option.splits)

section \<open>Type whitelists\<close>

text \<open>
  Claim C6 as stated has \<open>Section\<close> raise the type error for any component that is no
  \<open>TextDisplay\<close> and for any accessory that is neither \<open>Button\<close> nor \<open>Thumbnail\<close>. The
  count checks of \<open>Section.__init__\<close> run first: four components, the first a
  \<open>Separator\<close>, raise the count error, and so does a foreign accessory beside an empty
  list of components.
\<close>

theorem C6_counterexample_count_check_first:
  "Section_init globals_at_line_322
       [Separator True 1 None, TextDisplay ''b'' None, TextDisplay ''c'' None,
        TextDisplay ''d'' None] None None =
     Inl (ValueError ''Section can only contain up to 3 text components'') \<and>
   Section_init globals_at_line_322 [] (Some Other) None =
     Inl (ValueError ''Section must contain at least one text component'')"
  by (simp add: Section_init_cases)

text \<open>
  Claim C6, amended. In a namespace that binds the names the check reads, and with one to
  three components, the body of \<open>Section.__init__\<close> raises \<open>TypeError\<close> for the
  components exactly when one of them is no \<open>TextDisplay\<close>, and, when all are,
  \<open>TypeError\<close> for the accessory exactly when one is given that is neither \<open>Button\<close>
  nor \<open>Thumbnail\<close>; it raises no \<open>TypeError\<close> otherwise. With one to ten items, the
  body of \<open>MediaGallery.__init__\<close> raises \<open>TypeError\<close> exactly when an item is no
  \<open>MediaGalleryItem\<close>. The whitelist of \<open>Container\<close> is left out.
\<close>

theorem C6_type_whitelists:
  "((Section_init ns cs acc i =
       Inl (TypeError ''All components must be TextDisplay instances'')) =
      (cs \<noteq> [] \<and> length cs \<le> 3 \<and> ''TextDisplay'' \<in> set ns \<and>
       list_ex (\<lambda>comp. class_of comp \<noteq> TextDisplay_cls) cs)) \<and>
   ((Section_init ns cs acc i =
       Inl (TypeError ''Accessory must be either a Button or Thumbnail instance'')) =
      (cs \<noteq> [] \<and> length cs \<le> 3 \<and> ''TextDisplay'' \<in> set ns \<and>
       list_all (\<lambda>comp. class_of comp = TextDisplay_cls) cs \<and>
       (\<exists>a. acc = Some a \<and> ''Button'' \<in> set ns \<and> ''Thumbnail'' \<in> set ns \<and>
            class_of a \<noteq> Button_cls \<and> class_of a \<noteq> Thumbnail_cls))) \<and>
   ((\<exists>m. Section_init ns cs acc i = Inl (TypeError m)) =
      (cs \<noteq> [] \<and> length cs \<le> 3 \<and> ''TextDisplay'' \<in> set ns \<and>
       (list_ex (\<lambda>comp. class_of comp \<noteq> TextDisplay_cls) cs \<or>
        (\<exists>a. acc = Some a \<and> ''Button'' \<in> set ns \<and> ''Thumbnail'' \<in> set ns \<and>
             class_of a \<noteq> Button_cls \<and> class_of a \<noteq> Thumbnail_cls)))) \<and>
   ((\<exists>m. MediaGallery_init ns its i' = Inl (TypeError m)) =
      (its \<noteq> [] \<and> length its \<le> 10 \<and> ''MediaGalleryItem'' \<in> set ns \<and>
       list_ex (\<lambda>item. class_of item \<noteq> MediaGalleryItem_cls) its))"
  by (auto simp add: Section_init_cases MediaGallery_init_cases list_all_iff list_ex_iff
      split: option.splits)

end
